theory Spec2Isabelle
  imports Complex_Main "HOL-Library.Monad_Syntax"
begin

section \<open>Data model\<close>

text \<open>
  The program is a Flask service around a hand-written chess search. Board
  representation, move generation and terminal detection come from the
  python-chess library, which is not part of the repository; its answers are
  taken as a parameter (the record \<open>rules\<close> below), over an arbitrary type
  \<open>'b\<close> of boards.

  Squares are python-chess squares: \<open>0\<close> is a1, \<open>7\<close> is h1, \<open>63\<close> is h8.
  Colours are python-chess colours: \<open>chess.WHITE = True\<close>, \<open>chess.BLACK = False\<close>.
\<close>

datatype piece_type = PAWN | KNIGHT | BISHOP | ROOK | QUEEN | KING

datatype piece = Piece (piece_type: piece_type) (color: bool)

record move =
  from_square :: nat
  to_square :: nat
  promotion :: "piece_type option"

text \<open>What \<open>request.get_json()\<close> can hand to the endpoint.\<close>

datatype json =
    JNull
  | JBool bool
  | JNum int
  | JStr string
  | JArr "json list"
  | JObj "(string \<times> json) list"

text \<open>Exceptions of the Python program, as values. An \<open>AttributeError\<close>
  carries the name of the type and of the missing attribute, from which its
  message is built; an error of the library carries its message.\<close>

datatype exn =
    RecursionError
  | AttributeError string string
  | ProviderError string

record 'b rules =
  piece_at :: "'b \<Rightarrow> nat \<Rightarrow> piece option"
  turn :: "'b \<Rightarrow> bool"
  fullmove_number :: "'b \<Rightarrow> int"
  king :: "'b \<Rightarrow> bool \<Rightarrow> nat option"
  legal_count_as :: "'b \<Rightarrow> bool \<Rightarrow> nat"
  is_attacked_by :: "'b \<Rightarrow> bool \<Rightarrow> nat \<Rightarrow> bool"
  attackers :: "'b \<Rightarrow> bool \<Rightarrow> nat \<Rightarrow> nat list"
  is_check :: "'b \<Rightarrow> bool"
  legal_moves :: "'b \<Rightarrow> move list"
  is_capture :: "'b \<Rightarrow> move \<Rightarrow> bool"
  gives_check :: "'b \<Rightarrow> move \<Rightarrow> bool"
  push :: "'b \<Rightarrow> move \<Rightarrow> 'b"
  pop :: "'b \<Rightarrow> 'b"
  fen :: "'b \<Rightarrow> string"
  is_checkmate :: "'b \<Rightarrow> bool"
  is_stalemate :: "'b \<Rightarrow> bool"
  is_insufficient_material :: "'b \<Rightarrow> bool"
  is_fivefold_repetition :: "'b \<Rightarrow> bool"
  is_seventyfive_moves :: "'b \<Rightarrow> bool"
  is_game_over :: "'b \<Rightarrow> bool"
  Board :: "json \<Rightarrow> exn + 'b"
  promotion_name :: "piece_type \<Rightarrow> exn + string"

text \<open>
  \<open>legal_count_as r b c\<close> is \<open>len(list(t.legal_moves))\<close> for \<open>t = board.copy()\<close>
  with \<open>t.turn = c\<close>; \<open>Board r v\<close> is the constructor \<open>chess.Board(v)\<close>, which
  raises on a value that is not a well-formed FEN string;
  \<open>promotion_name r pt\<close> is what \<open>best_move.promotion.name.lower()\<close> evaluates
  to for a promotion to \<open>pt\<close>.
\<close>

subsection \<open>Scores\<close>

text \<open>
  Scores are Python numbers: the evaluator adds integers, \<open>value * 0.8\<close> and
  \<open>15 / 2\<close>, and the search starts from \<open>float('-inf')\<close> and \<open>float('inf')\<close>.
  For the six piece values the float product \<open>value * 0.8\<close> is the exact
  integer (80, 256, 264, 400, 720, 16000), \<open>15 / 2\<close> is exactly 7.5, and every
  sum is a multiple of one half far below \<open>2 ^ 53\<close>, so float arithmetic is
  exact here and finite scores are rationals.
\<close>

datatype score = NegInf | Fin rat | PosInf

instantiation score :: "{ord, uminus}"
begin

fun less_eq_score :: "score \<Rightarrow> score \<Rightarrow> bool" where
  "less_eq_score NegInf _ = True"
| "less_eq_score (Fin x) NegInf = False"
| "less_eq_score (Fin x) (Fin y) = (x \<le> y)"
| "less_eq_score (Fin x) PosInf = True"
| "less_eq_score PosInf NegInf = False"
| "less_eq_score PosInf (Fin y) = False"
| "less_eq_score PosInf PosInf = True"

fun less_score :: "score \<Rightarrow> score \<Rightarrow> bool" where
  "less_score _ NegInf = False"
| "less_score NegInf (Fin y) = True"
| "less_score NegInf PosInf = True"
| "less_score (Fin x) (Fin y) = (x < y)"
| "less_score (Fin x) PosInf = True"
| "less_score PosInf (Fin y) = False"
| "less_score PosInf PosInf = False"

fun uminus_score :: "score \<Rightarrow> score" where
  "uminus_score NegInf = PosInf"
| "uminus_score (Fin x) = Fin (- x)"
| "uminus_score PosInf = NegInf"

instance ..

end

section \<open>Configuration: piece values and piece-square tables\<close>

fun PIECE_VALUES :: "piece_type \<Rightarrow> int" where
  "PIECE_VALUES PAWN = 100"
| "PIECE_VALUES KNIGHT = 320"
| "PIECE_VALUES BISHOP = 330"
| "PIECE_VALUES ROOK = 500"
| "PIECE_VALUES QUEEN = 900"
| "PIECE_VALUES KING = 20000"

definition PAWN_TABLE :: "int list list" where
  "PAWN_TABLE =
   [[0, 0, 0, 0, 0, 0, 0, 0],
    [50, 50, 50, 50, 50, 50, 50, 50],
    [10, 10, 20, 30, 30, 20, 10, 10],
    [5, 5, 10, 25, 25, 10, 5, 5],
    [0, 0, 0, 0, 0, 0, 0, 0],
    [5, -5, -10, 0, 0, -10, -5, 5],
    [5, 10, 10, -20, -20, 10, 10, 5],
    [0, 0, 0, 0, 0, 0, 0, 0]]"

definition KNIGHT_TABLE :: "int list list" where
  "KNIGHT_TABLE =
   [[-50, -40, -30, -30, -30, -30, -40, -50],
    [-40, -20, 0, 0, 0, 0, -20, -40],
    [-30, 0, 10, 15, 15, 10, 0, -30],
    [-30, 5, 15, 20, 20, 15, 5, -30],
    [-30, 0, 15, 20, 20, 15, 0, -30],
    [-30, 5, 10, 15, 15, 10, 5, -30],
    [-40, -20, 0, 5, 5, 0, -20, -40],
    [-50, -40, -30, -30, -30, -30, -30, -50]]"

definition BISHOP_TABLE :: "int list list" where
  "BISHOP_TABLE =
   [[-20, -10, -10, -10, -10, -10, -10, -20],
    [-10, 0, 0, 0, 0, 0, 0, -10],
    [-10, 0, 5, 10, 10, 5, 0, -10],
    [-10, 5, 5, 10, 10, 5, 5, -10],
    [-10, 0, 10, 10, 10, 10, 0, -10],
    [-10, 10, 10, 10, 10, 10, 10, -10],
    [-10, 5, 0, 0, 0, 0, 5, -10],
    [-20, -10, -10, -10, -10, -10, -10, -20]]"

definition ROOK_TABLE :: "int list list" where
  "ROOK_TABLE =
   [[0, 0, 0, 0, 0, 0, 0, 0],
    [5, 10, 10, 10, 10, 10, 10, 5],
    [-5, 0, 0, 0, 0, 0, 0, -5],
    [-5, 0, 0, 0, 0, 0, 0, -5],
    [-5, 0, 0, 0, 0, 0, 0, -5],
    [-5, 0, 0, 0, 0, 0, 0, -5],
    [-5, 0, 0, 0, 0, 0, 0, -5],
    [0, 0, 0, 5, 5, 0, 0, 0]]"

definition QUEEN_TABLE :: "int list list" where
  "QUEEN_TABLE =
   [[-20, -10, -10, -5, -5, -10, -10, -20],
    [-10, 0, 0, 0, 0, 0, 0, -10],
    [-10, 0, 5, 5, 5, 5, 0, -10],
    [-5, 0, 5, 5, 5, 5, 0, -5],
    [0, 0, 5, 5, 5, 5, 0, -5],
    [-10, 5, 5, 5, 5, 5, 0, -10],
    [-10, 0, 5, 0, 0, 0, 0, -10],
    [-20, -10, -10, -5, -5, -10, -10, -20]]"

definition KING_TABLE :: "int list list" where
  "KING_TABLE =
   [[-30, -40, -40, -50, -50, -40, -40, -30],
    [-30, -40, -40, -50, -50, -40, -40, -30],
    [-30, -40, -40, -50, -50, -40, -40, -30],
    [-30, -40, -40, -50, -50, -40, -40, -30],
    [-20, -30, -30, -40, -40, -30, -30, -20],
    [-10, -20, -20, -20, -20, -20, -20, -10],
    [20, 20, 0, 0, 0, 0, 20, 20],
    [20, 30, 10, 0, 0, 10, 30, 20]]"

fun PIECE_TABLES :: "piece_type \<Rightarrow> int list list" where
  "PIECE_TABLES PAWN = PAWN_TABLE"
| "PIECE_TABLES KNIGHT = KNIGHT_TABLE"
| "PIECE_TABLES BISHOP = BISHOP_TABLE"
| "PIECE_TABLES ROOK = ROOK_TABLE"
| "PIECE_TABLES QUEEN = QUEEN_TABLE"
| "PIECE_TABLES KING = KING_TABLE"

section \<open>Helper functions of the evaluator\<close>

definition square :: "nat \<Rightarrow> nat \<Rightarrow> nat" where
  "square file_index rank_index = rank_index * 8 + file_index"

definition square_file :: "nat \<Rightarrow> nat" where
  "square_file sq = sq mod 8"

definition square_rank :: "nat \<Rightarrow> nat" where
  "square_rank sq = sq div 8"

definition SQUARES :: "nat list" where
  "SQUARES = [0..<64]"

text \<open>\<open>get_piece_table\<close>: the table of the piece type, for black reversed in
  rows and in columns (\<open>[row[::-1] for row in reversed(table)]\<close>).\<close>

definition get_piece_table :: "piece_type \<Rightarrow> bool \<Rightarrow> int list list" where
  "get_piece_table pt c =
     (let table = PIECE_TABLES pt
      in if \<not> c then map rev (rev table) else table)"

text \<open>\<open>_is_path_clear\<close>: no piece strictly between two squares of one rank or
  one file; \<open>True\<close> for any other pair of squares.\<close>

definition is_path_clear :: "'b rules \<Rightarrow> 'b \<Rightarrow> nat \<Rightarrow> nat \<Rightarrow> bool" where
  "is_path_clear r b square1 square2 =
     (let file1 = square_file square1; rank1 = square_rank square1;
          file2 = square_file square2; rank2 = square_rank square2
      in if rank1 = rank2 then
           list_all (\<lambda>f. piece_at r b (square f rank1) = None)
             [min file1 file2 + 1 ..< max file1 file2]
         else if file1 = file2 then
           list_all (\<lambda>k. piece_at r b (square file1 k) = None)
             [min rank1 rank2 + 1 ..< max rank1 rank2]
         else True)"

text \<open>\<open>_is_passed_pawn\<close>: no pawn of the other colour on the pawn's file or
  an adjacent file, on the ranks ahead of it (above for white, below for
  black).\<close>

definition is_passed_pawn :: "'b rules \<Rightarrow> 'b \<Rightarrow> nat \<Rightarrow> bool \<Rightarrow> bool" where
  "is_passed_pawn r b sq pawn_color =
     (let file_idx = square_file sq; rank_idx = square_rank sq;
          opponent_color = \<not> pawn_color;
          ranks = (if pawn_color then [rank_idx + 1 ..< 8] else [0 ..< rank_idx])
      in list_all (\<lambda>f. list_all (\<lambda>k.
            piece_at r b (square f k) \<noteq> Some (Piece PAWN opponent_color)) ranks)
           [file_idx - 1 ..< min 8 (file_idx + 2)])"

section \<open>The evaluator\<close>

text \<open>
  \<open>evaluate_board(board, ai_color_is_white)\<close> adds its terms to one running
  \<open>score\<close>; each section of the function body is one definition below, in
  the order of the source, and \<open>evaluate_board\<close> is their sum. The colour
  \<open>ai_color\<close> is \<open>chess.WHITE if ai_color_is_white else chess.BLACK\<close>, that
  is the flag itself, and \<open>opponent_color\<close> is its negation.
\<close>

text \<open>First loop, per occupied square: material and piece-square value,
  mobility, and the hanging-piece test (which asks for an attack by
  \<open>opponent_color\<close>, the colour opposite to \<open>ai_color\<close>).\<close>

definition square_score :: "'b rules \<Rightarrow> 'b \<Rightarrow> bool \<Rightarrow> nat \<Rightarrow> rat" where
  "square_score r b ai_color_is_white sq =
     (case piece_at r b sq of
        None \<Rightarrow> 0
      | Some p \<Rightarrow>
          (let ai_color = ai_color_is_white;
               opponent_color = \<not> ai_color_is_white;
               piece_color = color p;
               value = PIECE_VALUES (piece_type p);
               row = square_rank sq; col = square_file sq;
               positional_value = get_piece_table (piece_type p) piece_color ! row ! col;
               mobility_bonus = int (legal_count_as r b piece_color) * 2
           in (if piece_color = ai_color then of_int (value + positional_value)
               else - of_int (value + positional_value))
            + (if piece_color = ai_color then of_int mobility_bonus
               else - of_int mobility_bonus)
            + (if is_attacked_by r b opponent_color sq \<and> \<not> is_attacked_by r b piece_color sq
               then (if piece_color = ai_color then - (of_int value * (4 / 5))
                     else of_int value * (4 / 5))
               else 0)))"

definition pieces_score :: "'b rules \<Rightarrow> 'b \<Rightarrow> bool \<Rightarrow> rat" where
  "pieces_score r b ai_color_is_white =
     sum_list (map (square_score r b ai_color_is_white) SQUARES)"

text \<open>The squares holding a given piece, in the order of \<open>chess.SQUARES\<close>.\<close>

definition squares_of :: "'b rules \<Rightarrow> 'b \<Rightarrow> piece \<Rightarrow> nat list" where
  "squares_of r b p = filter (\<lambda>sq. piece_at r b sq = Some p) SQUARES"

definition bishop_pair_score :: "'b rules \<Rightarrow> 'b \<Rightarrow> bool \<Rightarrow> rat" where
  "bishop_pair_score r b ai_color_is_white =
     (let white_bishops = length (squares_of r b (Piece BISHOP True));
          black_bishops = length (squares_of r b (Piece BISHOP False))
      in (if white_bishops \<ge> 2 then (if ai_color_is_white then 30 else - 30) else 0)
       + (if black_bishops \<ge> 2 then (if \<not> ai_color_is_white then 30 else - 30) else 0))"

text \<open>The pairs \<open>(xs[i], xs[j])\<close> with \<open>i < j\<close>, as the two nested loops over
  the rook lists visit them.\<close>

fun pairs :: "'a list \<Rightarrow> ('a \<times> 'a) list" where
  "pairs [] = []"
| "pairs (x # xs) = map (Pair x) xs @ pairs xs"

text \<open>Rook connection. For white rooks the same-rank branch and the
  same-file branch carry opposite signs in the source; for black rooks both
  branches carry the same sign.\<close>

definition rook_connection_score :: "'b rules \<Rightarrow> 'b \<Rightarrow> bool \<Rightarrow> rat" where
  "rook_connection_score r b ai_color_is_white =
     (let rook_connection_bonus = 10;
          white_rooks = squares_of r b (Piece ROOK True);
          black_rooks = squares_of r b (Piece ROOK False)
      in sum_list (map (\<lambda>(sq1, sq2).
            if square_rank sq1 = square_rank sq2 then
              (if is_path_clear r b sq1 sq2
               then (if ai_color_is_white then rook_connection_bonus else - rook_connection_bonus)
               else 0)
            else if square_file sq1 = square_file sq2 then
              (if is_path_clear r b sq1 sq2
               then (if \<not> ai_color_is_white then rook_connection_bonus else - rook_connection_bonus)
               else 0)
            else 0) (pairs white_rooks))
       + sum_list (map (\<lambda>(sq1, sq2).
            if square_rank sq1 = square_rank sq2 then
              (if is_path_clear r b sq1 sq2
               then (if \<not> ai_color_is_white then rook_connection_bonus else - rook_connection_bonus)
               else 0)
            else if square_file sq1 = square_file sq2 then
              (if is_path_clear r b sq1 sq2
               then (if \<not> ai_color_is_white then rook_connection_bonus else - rook_connection_bonus)
               else 0)
            else 0) (pairs black_rooks)))"

text \<open>Pawn structure, per file: doubled, isolated and connected pawns.\<close>

definition pawns_in_file :: "'b rules \<Rightarrow> 'b \<Rightarrow> bool \<Rightarrow> nat \<Rightarrow> nat" where
  "pawns_in_file r b c file_index =
     length (filter (\<lambda>rank_index.
        piece_at r b (square file_index rank_index) = Some (Piece PAWN c)) [0..<8])"

definition is_isolated :: "'b rules \<Rightarrow> 'b \<Rightarrow> bool \<Rightarrow> nat \<Rightarrow> bool" where
  "is_isolated r b c file_index =
     (pawns_in_file r b c file_index > 0
      \<and> (file_index = 0 \<or> pawns_in_file r b c (file_index - 1) = 0)
      \<and> (file_index = 7 \<or> pawns_in_file r b c (file_index + 1) = 0))"

definition connected_score :: "'b rules \<Rightarrow> 'b \<Rightarrow> bool \<Rightarrow> nat \<Rightarrow> nat \<Rightarrow> rat" where
  "connected_score r b ai_color_is_white file_index rank_index =
     (case piece_at r b (square file_index rank_index) of
        None \<Rightarrow> 0
      | Some pawn \<Rightarrow>
          if piece_type pawn = PAWN then
            (if file_index > 0
                \<and> piece_at r b (square (file_index - 1) rank_index) = Some (Piece PAWN (color pawn))
             then (if color pawn = ai_color_is_white then 5 else - 5) else 0)
          + (if file_index < 7
                \<and> piece_at r b (square (file_index + 1) rank_index) = Some (Piece PAWN (color pawn))
             then (if color pawn = ai_color_is_white then 5 else - 5) else 0)
          else 0)"

definition file_structure_score :: "'b rules \<Rightarrow> 'b \<Rightarrow> bool \<Rightarrow> nat \<Rightarrow> rat" where
  "file_structure_score r b ai_color_is_white file_index =
     (if pawns_in_file r b True file_index > 1
      then (if ai_color_is_white then - 20 else 20) else 0)
   + (if pawns_in_file r b False file_index > 1
      then (if \<not> ai_color_is_white then - 20 else 20) else 0)
   + (if is_isolated r b True file_index
      then (if ai_color_is_white then - 15 else 15) else 0)
   + (if is_isolated r b False file_index
      then (if \<not> ai_color_is_white then - 15 else 15) else 0)
   + sum_list (map (connected_score r b ai_color_is_white file_index) [0..<8])"

definition pawn_structure_score :: "'b rules \<Rightarrow> 'b \<Rightarrow> bool \<Rightarrow> rat" where
  "pawn_structure_score r b ai_color_is_white =
     sum_list (map (file_structure_score r b ai_color_is_white) [0..<8])"

text \<open>
  King safety. \<open>if king_square_white:\<close> tests the square number, so a king on
  a1 (square 0) is skipped like a missing king. The shield loops look at the
  files \<open>max(0, f - 1) .. min(8, f + 2) - 1\<close>; for the white king at the ranks
  \<open>rank - 1\<close> and \<open>rank - 2\<close>, for the black king at \<open>rank + 1\<close> and \<open>rank + 2\<close>,
  each only when \<open>_is_valid_coord\<close> accepts it. The open-file penalty is
  subtracted from \<open>score\<close> whatever \<open>ai_color_is_white\<close> is.
\<close>

definition shield_count :: "'b rules \<Rightarrow> 'b \<Rightarrow> bool \<Rightarrow> nat \<Rightarrow> int \<Rightarrow> nat" where
  "shield_count r b c king_file target_rank =
     (if 0 \<le> target_rank \<and> target_rank \<le> 7 then
        length (filter (\<lambda>f. piece_at r b (square f (nat target_rank)) = Some (Piece PAWN c))
          [king_file - 1 ..< min 8 (king_file + 2)])
      else 0)"

definition king_score :: "'b rules \<Rightarrow> 'b \<Rightarrow> bool \<Rightarrow> bool \<Rightarrow> rat" where
  "king_score r b ai_color_is_white c =
     (case king r b c of
        None \<Rightarrow> 0
      | Some king_square \<Rightarrow>
          if king_square = 0 then 0
          else
            (let king_attack_penalty = 50;
                 king_open_file_penalty = 10;
                 king_rank = int (square_rank king_square);
                 king_file = square_file king_square;
                 rank_1 = (if c then king_rank - 1 else king_rank + 1);
                 rank_2 = (if c then king_rank - 2 else king_rank + 2);
                 king_safety = int (shield_count r b c king_file rank_1) * 10
                             + int (shield_count r b c king_file rank_2) * 5
             in (if pawns_in_file r b c king_file = 0 then - king_open_file_penalty else 0)
              + (if is_check r b
                 then (if ai_color_is_white = c then - king_attack_penalty
                       else king_attack_penalty)
                 else 0)
              + (if ai_color_is_white = c then of_int king_safety else - of_int king_safety)))"

definition king_safety_score :: "'b rules \<Rightarrow> 'b \<Rightarrow> bool \<Rightarrow> rat" where
  "king_safety_score r b ai_color_is_white =
     king_score r b ai_color_is_white True + king_score r b ai_color_is_white False"

text \<open>Centre control: d4, e4, d5, e5.\<close>

definition central_squares :: "nat list" where
  "central_squares = [27, 28, 35, 36]"

definition center_control_score :: "'b rules \<Rightarrow> 'b \<Rightarrow> bool \<Rightarrow> rat" where
  "center_control_score r b ai_color_is_white =
     sum_list (map (\<lambda>sq. case piece_at r b sq of
         None \<Rightarrow> 0
       | Some p \<Rightarrow> if color p = ai_color_is_white then 10 else - 10) central_squares)"

text \<open>
  Development. The loop body over the four starting squares of a colour is
  \<^verbatim>\<open>if piece and piece.color == C and piece.piece_type in [KNIGHT, BISHOP]: pass\<close>,
  \<^verbatim>\<open>elif piece is None: pass\<close>, and in the \<^verbatim>\<open>else\<close> branch the counter is
  incremented under the condition of the first branch again.
\<close>

definition is_minor :: "piece \<Rightarrow> bool" where
  "is_minor p = (piece_type p = KNIGHT \<or> piece_type p = BISHOP)"

definition developed_pieces :: "'b rules \<Rightarrow> 'b \<Rightarrow> bool \<Rightarrow> nat list \<Rightarrow> nat" where
  "developed_pieces r b c start_squares =
     length (filter (\<lambda>sq.
        case piece_at r b sq of
          None \<Rightarrow> False
        | Some p \<Rightarrow>
            if color p = c \<and> is_minor p then False
            else (color p = c \<and> is_minor p)) start_squares)"

definition development_score :: "'b rules \<Rightarrow> 'b \<Rightarrow> bool \<Rightarrow> rat" where
  "development_score r b ai_color_is_white =
     (if fullmove_number r b < 6 then
        (let white_developed_pieces = int (developed_pieces r b True [1, 2, 5, 6]);
             black_developed_pieces = int (developed_pieces r b False [57, 58, 61, 62])
         in if ai_color_is_white
            then of_int (white_developed_pieces * 10 - black_developed_pieces * 10)
            else of_int (black_developed_pieces * 10 - white_developed_pieces * 10))
      else 0)"

text \<open>Rooks on open and semi-open files: 15, or \<open>15 / 2\<close>.\<close>

definition file_has :: "'b rules \<Rightarrow> 'b \<Rightarrow> piece \<Rightarrow> nat \<Rightarrow> bool" where
  "file_has r b p file_idx =
     list_ex (\<lambda>rank_idx. piece_at r b (square file_idx rank_idx) = Some p) [0..<8]"

definition rook_file_score :: "'b rules \<Rightarrow> 'b \<Rightarrow> bool \<Rightarrow> nat \<Rightarrow> rat" where
  "rook_file_score r b ai_color_is_white file_idx =
     (let rook_open_semi_file_bonus = 15;
          file_is_open_white = \<not> file_has r b (Piece PAWN True) file_idx;
          file_is_open_black = \<not> file_has r b (Piece PAWN False) file_idx;
          has_white_rook = file_has r b (Piece ROOK True) file_idx;
          has_black_rook = file_has r b (Piece ROOK False) file_idx
      in (if has_white_rook \<and> file_is_open_white \<and> file_is_open_black
          then (if ai_color_is_white then rook_open_semi_file_bonus
                else - rook_open_semi_file_bonus)
          else if has_white_rook \<and> file_is_open_black
          then (if ai_color_is_white then rook_open_semi_file_bonus / 2
                else - rook_open_semi_file_bonus / 2)
          else 0)
       + (if has_black_rook \<and> file_is_open_black \<and> file_is_open_white
          then (if \<not> ai_color_is_white then rook_open_semi_file_bonus
                else - rook_open_semi_file_bonus)
          else if has_black_rook \<and> file_is_open_white
          then (if \<not> ai_color_is_white then rook_open_semi_file_bonus / 2
                else - rook_open_semi_file_bonus / 2)
          else 0))"

definition rook_files_score :: "'b rules \<Rightarrow> 'b \<Rightarrow> bool \<Rightarrow> rat" where
  "rook_files_score r b ai_color_is_white =
     sum_list (map (rook_file_score r b ai_color_is_white) [0..<8])"

text \<open>Passed pawns: 50 plus 10 per rank advanced.\<close>

definition passed_pawn_score :: "'b rules \<Rightarrow> 'b \<Rightarrow> bool \<Rightarrow> nat \<Rightarrow> rat" where
  "passed_pawn_score r b ai_color_is_white sq =
     (case piece_at r b sq of
        None \<Rightarrow> 0
      | Some p \<Rightarrow>
          if piece_type p = PAWN \<and> is_passed_pawn r b sq (color p) then
            (let passed_pawn_base_bonus = 50;
                 rank_idx = int (square_rank sq);
                 advancement_bonus =
                   (if color p then (rank_idx - 1) * 10 else (6 - rank_idx) * 10)
             in if color p = ai_color_is_white
                then of_int (passed_pawn_base_bonus + advancement_bonus)
                else - of_int (passed_pawn_base_bonus + advancement_bonus))
          else 0)"

definition passed_pawns_score :: "'b rules \<Rightarrow> 'b \<Rightarrow> bool \<Rightarrow> rat" where
  "passed_pawns_score r b ai_color_is_white =
     sum_list (map (passed_pawn_score r b ai_color_is_white) SQUARES)"

text \<open>Knight outposts: a knight on a central square, defended by a pawn of its
  colour and not attacked by a pawn of the other colour.\<close>

definition pawn_among :: "'b rules \<Rightarrow> 'b \<Rightarrow> bool \<Rightarrow> nat list \<Rightarrow> bool" where
  "pawn_among r b c sqs = list_ex (\<lambda>pawn_sq. piece_at r b pawn_sq = Some (Piece PAWN c)) sqs"

definition knight_outpost_score :: "'b rules \<Rightarrow> 'b \<Rightarrow> bool \<Rightarrow> nat \<Rightarrow> rat" where
  "knight_outpost_score r b ai_color_is_white sq =
     (case piece_at r b sq of
        None \<Rightarrow> 0
      | Some p \<Rightarrow>
          if piece_type p = KNIGHT \<and> sq \<in> set central_squares then
            (let knight_color = color p;
                 opp_color = \<not> knight_color;
                 is_defended_by_pawn = pawn_among r b knight_color (attackers r b knight_color sq);
                 is_attacked_by_opp_pawn = pawn_among r b opp_color (attackers r b opp_color sq)
             in if is_defended_by_pawn \<and> \<not> is_attacked_by_opp_pawn
                then (if knight_color = ai_color_is_white then 25 else - 25)
                else 0)
          else 0)"

definition knight_outposts_score :: "'b rules \<Rightarrow> 'b \<Rightarrow> bool \<Rightarrow> rat" where
  "knight_outposts_score r b ai_color_is_white =
     sum_list (map (knight_outpost_score r b ai_color_is_white) SQUARES)"

definition evaluate_board :: "'b rules \<Rightarrow> 'b \<Rightarrow> bool \<Rightarrow> rat" where
  "evaluate_board r b ai_color_is_white =
       pieces_score r b ai_color_is_white
     + bishop_pair_score r b ai_color_is_white
     + rook_connection_score r b ai_color_is_white
     + pawn_structure_score r b ai_color_is_white
     + king_safety_score r b ai_color_is_white
     + center_control_score r b ai_color_is_white
     + development_score r b ai_color_is_white
     + rook_files_score r b ai_color_is_white
     + passed_pawns_score r b ai_color_is_white
     + knight_outposts_score r b ai_color_is_white"

section \<open>Transposition table and move ordering\<close>

datatype tt_flag = TT_EXACT | TT_LOWERBOUND | TT_UPPERBOUND

text \<open>The global dictionary \<open>transposition_table\<close>: FEN string to
  \<open>(depth, score, flag)\<close>. It is threaded through the search as a value.\<close>

type_synonym ttable = "string \<rightharpoonup> (int \<times> score \<times> tt_flag)"

text \<open>The first block of \<open>minimax\<close>: the stored score when the entry may be
  returned at once, \<open>None\<close> when the function goes on.\<close>

definition tt_probe :: "ttable \<Rightarrow> string \<Rightarrow> int \<Rightarrow> score \<Rightarrow> score \<Rightarrow> score option" where
  "tt_probe tt key depth alpha beta =
     (case tt key of
        None \<Rightarrow> None
      | Some (stored_depth, stored_score, flag) \<Rightarrow>
          if stored_depth \<ge> depth then
            (if flag = TT_EXACT then Some stored_score
             else if flag = TT_LOWERBOUND \<and> stored_score \<ge> beta then Some stored_score
             else if flag = TT_UPPERBOUND \<and> stored_score \<le> alpha then Some stored_score
             else None)
          else None)"

definition calculate_mvl_lva :: "'b rules \<Rightarrow> 'b \<Rightarrow> move \<Rightarrow> int" where
  "calculate_mvl_lva r b m =
     (if \<not> is_capture r b m then 0
      else case (piece_at r b (to_square m), piece_at r b (from_square m)) of
             (Some victim_piece, Some attacker_piece) \<Rightarrow>
               PIECE_VALUES (piece_type victim_piece) - PIECE_VALUES (piece_type attacker_piece)
           | _ \<Rightarrow> 0)"

text \<open>\<open>list.sort(key=..., reverse=True)\<close>: descending by key, and stable
  (moves of equal key keep the order in which they were generated).\<close>

definition sort_reverse :: "('a \<Rightarrow> int) \<Rightarrow> 'a list \<Rightarrow> 'a list" where
  "sort_reverse key xs = sort_key (\<lambda>x. - key x) xs"

definition check_key :: "'b rules \<Rightarrow> 'b \<Rightarrow> move \<Rightarrow> int" where
  "check_key r b m = calculate_mvl_lva r b m + (if gives_check r b m then 100 else 0)"

definition py_max :: "score \<Rightarrow> score \<Rightarrow> score" where
  "py_max a b = (if b > a then b else a)"

definition py_min :: "score \<Rightarrow> score \<Rightarrow> score" where
  "py_min a b = (if b < a then b else a)"

section \<open>Quiescence search\<close>

text \<open>
  The recursion of \<open>quiescence_search\<close> has no bound of its own; the
  interpreter stops it with \<open>RecursionError\<close> at the recursion limit. The
  first argument is the number of stack frames still available: a call with
  none left raises, and every recursive call has one fewer. The board is
  passed in and returned, since \<open>push\<close> and \<open>pop\<close> change it in place.
\<close>

fun quiescence_search ::
    "nat \<Rightarrow> 'b rules \<Rightarrow> 'b \<Rightarrow> bool \<Rightarrow> score \<Rightarrow> score \<Rightarrow> exn + (score \<times> 'b)"
  and quiescence_loop ::
    "nat \<Rightarrow> 'b rules \<Rightarrow> move list \<Rightarrow> 'b \<Rightarrow> bool \<Rightarrow> score \<Rightarrow> score \<Rightarrow> exn + (score \<times> 'b)"
where
  "quiescence_search 0 r board ai_color_is_white alpha beta = Inl RecursionError"
| "quiescence_search (Suc n) r board ai_color_is_white alpha beta =
     (let stand_pat = Fin (evaluate_board r board ai_color_is_white)
      in if stand_pat \<ge> beta then Inr (beta, board)
         else
           (let alpha' = (if stand_pat > alpha then stand_pat else alpha);
                noisy_moves = filter (\<lambda>m. is_capture r board m \<or> gives_check r board m
                                            \<or> promotion m \<noteq> None) (legal_moves r board);
                sorted_moves = sort_reverse (calculate_mvl_lva r board) noisy_moves
            in quiescence_loop n r sorted_moves board ai_color_is_white alpha' beta))"
| "quiescence_loop n r [] board ai_color_is_white alpha beta = Inr (alpha, board)"
| "quiescence_loop n r (m # ms) board ai_color_is_white alpha beta =
     (case quiescence_search n r (push r board m) (\<not> ai_color_is_white) (- beta) (- alpha) of
        Inl e \<Rightarrow> Inl e
      | Inr (s, board') \<Rightarrow>
          (let score = - s; board'' = pop r board'
           in if score \<ge> beta then Inr (beta, board'')
              else quiescence_loop n r ms board'' ai_color_is_white
                     (if score > alpha then score else alpha) beta))"

section \<open>Minimax with alpha-beta pruning\<close>

text \<open>
  \<open>minimax(board, depth, ai_color_is_white, alpha, beta)\<close>. The loop over the
  ordered legal moves is \<open>minimax_loop\<close>; it carries \<open>alpha\<close>, \<open>beta\<close>,
  \<open>best_score_for_node\<close> and \<open>flag\<close>, and stops at \<open>beta <= alpha\<close>. The
  returned score of the recursive call is used as it is (the source does not
  negate it), while the window is passed on as \<open>(-beta, -alpha)\<close>.
\<close>

fun minimax ::
    "nat \<Rightarrow> 'b rules \<Rightarrow> 'b \<Rightarrow> int \<Rightarrow> bool \<Rightarrow> score \<Rightarrow> score \<Rightarrow> ttable
      \<Rightarrow> exn + (score \<times> 'b \<times> ttable)"
  and minimax_loop ::
    "nat \<Rightarrow> 'b rules \<Rightarrow> move list \<Rightarrow> 'b \<Rightarrow> int \<Rightarrow> bool \<Rightarrow> score \<Rightarrow> score \<Rightarrow> score
      \<Rightarrow> tt_flag \<Rightarrow> ttable \<Rightarrow> exn + ((score \<times> tt_flag) \<times> 'b \<times> ttable)"
where
  "minimax 0 r board depth ai_color_is_white alpha beta tt = Inl RecursionError"
| "minimax (Suc n) r board depth ai_color_is_white alpha beta tt =
     (let key = fen r board
      in case tt_probe tt key depth alpha beta of
           Some stored_score \<Rightarrow> Inr (stored_score, board, tt)
         | None \<Rightarrow>
             if depth = 0 then
               (case quiescence_search n r board ai_color_is_white alpha beta of
                  Inl e \<Rightarrow> Inl e
                | Inr (score, board') \<Rightarrow>
                    Inr (score, board', tt(key \<mapsto> (depth, score, TT_EXACT))))
             else if is_checkmate r board then
               (let score = (if turn r board = ai_color_is_white
                             then Fin 1000000 else Fin (- 1000000))
                in Inr (score, board, tt(key \<mapsto> (depth, score, TT_EXACT))))
             else if is_stalemate r board \<or> is_insufficient_material r board
                     \<or> is_fivefold_repetition r board \<or> is_seventyfive_moves r board then
               Inr (Fin 0, board, tt(key \<mapsto> (depth, Fin 0, TT_EXACT)))
             else
               (let best_score_for_node = (if ai_color_is_white then NegInf else PosInf);
                    flag = (if ai_color_is_white then TT_LOWERBOUND else TT_UPPERBOUND);
                    sorted_moves = sort_reverse (check_key r board) (legal_moves r board)
                in case minimax_loop n r sorted_moves board depth ai_color_is_white
                          alpha beta best_score_for_node flag tt of
                     Inl e \<Rightarrow> Inl e
                   | Inr ((best, flag'), board', tt') \<Rightarrow>
                       Inr (best, board', tt'(key \<mapsto> (depth, best, flag')))))"
| "minimax_loop n r [] board depth ai_color_is_white alpha beta best flag tt =
     Inr ((best, flag), board, tt)"
| "minimax_loop n r (m # ms) board depth ai_color_is_white alpha beta best flag tt =
     (case minimax n r (push r board m) (depth - 1) (\<not> ai_color_is_white)
             (- beta) (- alpha) tt of
        Inl e \<Rightarrow> Inl e
      | Inr (score, board', tt') \<Rightarrow>
          (let board'' = pop r board';
               best' = (if ai_color_is_white
                        then (if score > best then score else best)
                        else (if score < best then score else best));
               alpha' = (if ai_color_is_white then py_max alpha score else alpha);
               beta' = (if ai_color_is_white then beta else py_min beta score)
           in if beta' \<le> alpha'
              then Inr ((best', if ai_color_is_white then TT_LOWERBOUND else TT_UPPERBOUND),
                        board'', tt')
              else minimax_loop n r ms board'' depth ai_color_is_white alpha' beta' best'
                     flag tt'))"

section \<open>The endpoint \<open>get_ai_move\<close>\<close>

record response =
  success :: bool
  move_out :: "(string \<times> string \<times> string option) option"
  message :: string
  status :: nat

text \<open>\<open>not v\<close> for a JSON value: \<open>None\<close>, \<open>False\<close>, \<open>0\<close> and the empty string,
  list and dictionary are false.\<close>

fun falsy :: "json \<Rightarrow> bool" where
  "falsy JNull = True"
| "falsy (JBool v) = (\<not> v)"
| "falsy (JNum i) = (i = 0)"
| "falsy (JStr s) = (s = [])"
| "falsy (JArr xs) = (xs = [])"
| "falsy (JObj kvs) = (kvs = [])"

text \<open>\<open>data.get(key)\<close>: the value or \<open>None\<close> when \<open>data\<close> is a dictionary;
  any other JSON value has no attribute \<open>get\<close>.\<close>

fun type_name :: "json \<Rightarrow> string" where
  "type_name JNull = ''NoneType''"
| "type_name (JBool v) = ''bool''"
| "type_name (JNum i) = ''int''"
| "type_name (JStr s) = ''str''"
| "type_name (JArr xs) = ''list''"
| "type_name (JObj kvs) = ''dict''"

definition dict_get :: "(string \<times> json) list \<Rightarrow> string \<Rightarrow> json" where
  "dict_get kvs k = (case map_of kvs k of None \<Rightarrow> JNull | Some v \<Rightarrow> v)"

fun data_get :: "json \<Rightarrow> string \<Rightarrow> exn + json" where
  "data_get (JObj kvs) k = Inr (dict_get kvs k)"
| "data_get v k = Inl (AttributeError (type_name v) ''get'')"

definition lower_char :: "char \<Rightarrow> char" where
  "lower_char c =
     (let k = (of_char c :: nat) in if 65 \<le> k \<and> k \<le> 90 then char_of (k + 32) else c)"

text \<open>\<open>ai_color_str.lower()\<close>: only a string has the method.\<close>

fun str_lower :: "json \<Rightarrow> exn + string" where
  "str_lower (JStr s) = Inr (map lower_char s)"
| "str_lower v = Inl (AttributeError (type_name v) ''lower'')"

text \<open>\<open>str(e)\<close>. The message of an \<open>AttributeError\<close> is
  \<^verbatim>\<open>'T' object has no attribute 'a'\<close>; to the message of a \<open>RecursionError\<close>
  the interpreter may append where the limit was hit.\<close>

definition quoted :: "string \<Rightarrow> string" where
  "quoted s = CHR 0x27 # s @ [CHR 0x27]"

fun str_exn :: "exn \<Rightarrow> string" where
  "str_exn RecursionError = ''maximum recursion depth exceeded''"
| "str_exn (AttributeError ty attr) =
     quoted ty @ '' object has no attribute '' @ quoted attr"
| "str_exn (ProviderError msg) = msg"

definition square_name :: "nat \<Rightarrow> string" where
  "square_name sq = [''abcdefgh'' ! square_file sq, ''12345678'' ! square_rank sq]"

text \<open>Truth value of a \<open>chess.Move\<close>: only the null move is false.\<close>

definition move_truthy :: "move \<Rightarrow> bool" where
  "move_truthy m = (from_square m \<noteq> 0 \<or> to_square m \<noteq> 0 \<or> promotion m \<noteq> None)"

definition depth_of :: "json \<Rightarrow> int" where
  "depth_of difficulty =
     (if difficulty = JStr ''easy'' then 1
      else if difficulty = JStr ''intermediate'' then 2
      else if difficulty = JStr ''hard'' then 3
      else 2)"

text \<open>\<open>transposition_table.clear()\<close>.\<close>

definition clear :: "ttable \<Rightarrow> ttable" where
  "clear tt = Map.empty"

text \<open>The loop over the ordered root moves: it keeps the first move whose
  score is strictly better than \<open>best_score\<close> (greater for white, smaller
  for black).\<close>

fun root_loop ::
    "nat \<Rightarrow> 'b rules \<Rightarrow> move list \<Rightarrow> 'b \<Rightarrow> int \<Rightarrow> bool \<Rightarrow> score \<Rightarrow> move option \<Rightarrow> ttable
      \<Rightarrow> exn + ((score \<times> move option) \<times> 'b \<times> ttable)"
where
  "root_loop n r [] board depth ai_is_white best_score best_move tt =
     Inr ((best_score, best_move), board, tt)"
| "root_loop n r (m # ms) board depth ai_is_white best_score best_move tt =
     (case minimax n r (push r board m) (depth - 1) (\<not> ai_is_white) NegInf PosInf tt of
        Inl e \<Rightarrow> Inl e
      | Inr (score, board', tt') \<Rightarrow>
          (let board'' = pop r board'
           in if (if ai_is_white then score > best_score else score < best_score)
              then root_loop n r ms board'' depth ai_is_white score (Some m) tt'
              else root_loop n r ms board'' depth ai_is_white best_score best_move tt'))"

text \<open>The search of one request: the table is cleared, the root moves are
  ordered, and the loop starts from \<open>float('-inf')\<close> for white and
  \<open>float('inf')\<close> for black with no move chosen.\<close>

definition root_search ::
    "nat \<Rightarrow> 'b rules \<Rightarrow> ttable \<Rightarrow> 'b \<Rightarrow> int \<Rightarrow> bool
      \<Rightarrow> exn + ((score \<times> move option) \<times> 'b \<times> ttable)" where
  "root_search n r tt board depth ai_is_white =
     (let tt0 = clear tt;
          best_score = (if ai_is_white then NegInf else PosInf)
      in root_loop n r (sort_reverse (check_key r board) (legal_moves r board))
           board depth ai_is_white best_score None tt0)"

definition response_of_move :: "'b rules \<Rightarrow> move \<Rightarrow> exn + response" where
  "response_of_move r best_move =
     (case (case promotion best_move of
              None \<Rightarrow> Inr None
            | Some pt \<Rightarrow> (case promotion_name r pt of Inl e \<Rightarrow> Inl e | Inr nm \<Rightarrow> Inr (Some nm))) of
        Inl e \<Rightarrow> Inl e
      | Inr promo \<Rightarrow>
          Inr \<lparr> success = True,
                move_out = Some (square_name (from_square best_move),
                                 square_name (to_square best_move), promo),
                message = ''AI found a move.'', status = 200 \<rparr>)"

text \<open>The body of the \<open>try\<close> block; \<open>Inl\<close> is an exception raised inside it.\<close>

definition try_body ::
    "nat \<Rightarrow> 'b rules \<Rightarrow> ttable \<Rightarrow> json \<Rightarrow> json \<Rightarrow> json \<Rightarrow> exn + response" where
  "try_body n r tt board_fen ai_color_str difficulty =
     (case Board r board_fen of
        Inl e \<Rightarrow> Inl e
      | Inr board \<Rightarrow>
     (case str_lower ai_color_str of
        Inl e \<Rightarrow> Inl e
      | Inr lowered \<Rightarrow>
          (let ai_is_white = (lowered = ''white'')
           in if is_game_over r board then
                Inr \<lparr> success = False, move_out = None,
                      message = ''Game is already over (checkmate, stalemate, or draw)'',
                      status = 200 \<rparr>
              else if turn r board \<noteq> ai_is_white then
                Inr \<lparr> success = False, move_out = None,
                      message = ''Not AI's turn to move.'', status = 200 \<rparr>
              else
                (let depth = depth_of difficulty
                 in if legal_moves r board = [] then
                      Inr \<lparr> success = False, move_out = None,
                            message = ''No legal moves for AI (checkmate/stalemate)'',
                            status = 200 \<rparr>
                    else
                      (case root_search n r tt board depth ai_is_white of
                         Inl e \<Rightarrow> Inl e
                       | Inr ((score, best_move), board', tt') \<Rightarrow>
                           (case best_move of
                              None \<Rightarrow>
                                Inr \<lparr> success = False, move_out = None,
                                      message = ''AI could not find a move.'', status = 200 \<rparr>
                            | Some mv \<Rightarrow>
                                if move_truthy mv then response_of_move r mv
                                else Inr \<lparr> success = False, move_out = None,
                                           message = ''AI could not find a move.'',
                                           status = 200 \<rparr>))))))"

text \<open>
  The handler. \<open>data\<close> is the value of \<open>request.get_json()\<close>; the three
  \<open>data.get\<close> calls and the test for missing fields stand before the \<open>try\<close>,
  so an exception there leaves the handler (\<open>Inl\<close>); an exception in the
  \<open>try\<close> block becomes the response of the \<open>except\<close> clause.
\<close>

definition get_ai_move :: "nat \<Rightarrow> 'b rules \<Rightarrow> ttable \<Rightarrow> json \<Rightarrow> exn + response" where
  "get_ai_move n r tt data =
     (case data_get data ''board_fen'' of
        Inl e \<Rightarrow> Inl e
      | Inr board_fen \<Rightarrow>
     (case data_get data ''ai_color'' of
        Inl e \<Rightarrow> Inl e
      | Inr ai_color_str \<Rightarrow>
     (case data_get data ''difficulty'' of
        Inl e \<Rightarrow> Inl e
      | Inr difficulty \<Rightarrow>
          if falsy board_fen \<or> falsy ai_color_str \<or> falsy difficulty then
            Inr \<lparr> success = False, move_out = None,
                  message = ''Missing board_fen, ai_color, or difficulty'', status = 400 \<rparr>
          else
            (case try_body n r tt board_fen ai_color_str difficulty of
               Inl e \<Rightarrow>
                 Inr \<lparr> success = False, move_out = None, message = str_exn e, status = 500 \<rparr>
             | Inr resp \<Rightarrow> Inr resp))))"

section \<open>The reference search of the specification\<close>

text \<open>
  The unpruned full-width negamax, written from the specification's words
  (section 4.4, without table and without cutoff): at depth 0 the quiescence
  search of the program with the full window; at a checkmate -1,000,000 if the
  side to move is the perspective, else +1,000,000; at a draw 0; otherwise
  the maximum, over the ordered legal moves, of the negated value of the
  position after the move, searched one ply less deep from the other
  perspective.
\<close>

fun spec_negamax :: "nat \<Rightarrow> 'b rules \<Rightarrow> 'b \<Rightarrow> int \<Rightarrow> bool \<Rightarrow> exn + score"
  and spec_negamax_best ::
    "nat \<Rightarrow> 'b rules \<Rightarrow> move list \<Rightarrow> 'b \<Rightarrow> int \<Rightarrow> bool \<Rightarrow> score \<Rightarrow> exn + score"
where
  "spec_negamax 0 r position depth perspective = Inl RecursionError"
| "spec_negamax (Suc n) r position depth perspective =
     (if depth = 0 then
        (case quiescence_search n r position perspective NegInf PosInf of
           Inl e \<Rightarrow> Inl e
         | Inr (s, _) \<Rightarrow> Inr s)
      else if is_checkmate r position then
        Inr (if turn r position = perspective then Fin (- 1000000) else Fin 1000000)
      else if is_stalemate r position \<or> is_insufficient_material r position
              \<or> is_fivefold_repetition r position \<or> is_seventyfive_moves r position then
        Inr (Fin 0)
      else spec_negamax_best n r (sort_reverse (check_key r position) (legal_moves r position))
             position depth perspective NegInf)"
| "spec_negamax_best n r [] position depth perspective best = Inr best"
| "spec_negamax_best n r (m # ms) position depth perspective best =
     (case spec_negamax n r (push r position m) (depth - 1) (\<not> perspective) of
        Inl e \<Rightarrow> Inl e
      | Inr s \<Rightarrow> spec_negamax_best n r ms position depth perspective (py_max best (- s)))"

section \<open>A rules provider over an explicit fragment of the game tree\<close>

text \<open>
  For concrete runs the provider is instantiated with a finite fragment of
  the game tree of chess. A node carries what python-chess answers on its
  position: the FEN, the side to move, the full-move number, the occupied
  squares, the number of legal moves with the turn set to white and to black,
  for each pair \<open>(colour, occupied square)\<close> that the colour attacks the
  squares of the attackers in ascending order, whether the side to move is in check, the terminal status, and the legal
  moves, each with \<open>is_capture\<close>, \<open>gives_check\<close> and the node it leads to.
  \<open>Beyond\<close> stands for a position outside the fragment. A board is the
  current node and the stack of nodes that \<open>pop\<close> returns to.
\<close>

datatype terminal = Playing | Checkmate | Stalemate | Insufficient | Fivefold | SeventyFive

datatype tnode =
    Beyond
  | TNode string bool int "(nat \<times> piece) list" nat nat "((bool \<times> nat) \<times> nat list) list"
      bool terminal
      "(move \<times> bool \<times> bool \<times> tnode) list"

type_synonym tboard = "tnode \<times> tnode list"

fun tn_fen :: "tnode \<Rightarrow> string" where
  "tn_fen (TNode f t fm ps mw mb att chk st mvs) = f"
| "tn_fen Beyond = []"

fun tn_turn :: "tnode \<Rightarrow> bool" where
  "tn_turn (TNode f t fm ps mw mb att chk st mvs) = t"
| "tn_turn Beyond = True"

fun tn_fullmove :: "tnode \<Rightarrow> int" where
  "tn_fullmove (TNode f t fm ps mw mb att chk st mvs) = fm"
| "tn_fullmove Beyond = 1"

fun tn_pieces :: "tnode \<Rightarrow> (nat \<times> piece) list" where
  "tn_pieces (TNode f t fm ps mw mb att chk st mvs) = ps"
| "tn_pieces Beyond = []"

fun tn_mobility :: "tnode \<Rightarrow> bool \<Rightarrow> nat" where
  "tn_mobility (TNode f t fm ps mw mb att chk st mvs) c = (if c then mw else mb)"
| "tn_mobility Beyond c = 0"

fun tn_attackers :: "tnode \<Rightarrow> bool \<Rightarrow> nat \<Rightarrow> nat list" where
  "tn_attackers (TNode f t fm ps mw mb att chk st mvs) c sq =
     (case map_of att (c, sq) of None \<Rightarrow> [] | Some sqs \<Rightarrow> sqs)"
| "tn_attackers Beyond c sq = []"

fun tn_check :: "tnode \<Rightarrow> bool" where
  "tn_check (TNode f t fm ps mw mb att chk st mvs) = chk"
| "tn_check Beyond = False"

fun tn_status :: "tnode \<Rightarrow> terminal" where
  "tn_status (TNode f t fm ps mw mb att chk st mvs) = st"
| "tn_status Beyond = Playing"

fun tn_moves :: "tnode \<Rightarrow> (move \<times> bool \<times> bool \<times> tnode) list" where
  "tn_moves (TNode f t fm ps mw mb att chk st mvs) = mvs"
| "tn_moves Beyond = []"

definition tn_king :: "tnode \<Rightarrow> bool \<Rightarrow> nat option" where
  "tn_king nd c = map_option fst (find (\<lambda>(sq, p). p = Piece KING c) (tn_pieces nd))"

definition tn_push :: "tboard \<Rightarrow> move \<Rightarrow> tboard" where
  "tn_push b m =
     (case map_of (tn_moves (fst b)) m of
        None \<Rightarrow> (Beyond, fst b # snd b)
      | Some (cap, chk, nd) \<Rightarrow> (nd, fst b # snd b))"

definition tn_pop :: "tboard \<Rightarrow> tboard" where
  "tn_pop b = (case snd b of [] \<Rightarrow> b | nd # rest \<Rightarrow> (nd, rest))"

definition tn_Board :: "(string \<times> tnode) list \<Rightarrow> json \<Rightarrow> exn + tboard" where
  "tn_Board known v =
     (case v of
        JStr s \<Rightarrow> (case map_of known s of
                     None \<Rightarrow> Inl (ProviderError ''invalid fen'')
                   | Some nd \<Rightarrow> Inr (nd, []))
      | _ \<Rightarrow> Inl (AttributeError (type_name v) ''split''))"

definition fragment_rules :: "(string \<times> tnode) list \<Rightarrow> tboard rules" where
  "fragment_rules known =
     \<lparr> piece_at = (\<lambda>b sq. map_of (tn_pieces (fst b)) sq),
       turn = (\<lambda>b. tn_turn (fst b)),
       fullmove_number = (\<lambda>b. tn_fullmove (fst b)),
       king = (\<lambda>b c. tn_king (fst b) c),
       legal_count_as = (\<lambda>b c. tn_mobility (fst b) c),
       is_attacked_by = (\<lambda>b c sq. tn_attackers (fst b) c sq \<noteq> []),
       attackers = (\<lambda>b c sq. tn_attackers (fst b) c sq),
       is_check = (\<lambda>b. tn_check (fst b)),
       legal_moves = (\<lambda>b. map fst (tn_moves (fst b))),
       is_capture = (\<lambda>b m. case map_of (tn_moves (fst b)) m of
                               None \<Rightarrow> False | Some (cap, chk, nd) \<Rightarrow> cap),
       gives_check = (\<lambda>b m. case map_of (tn_moves (fst b)) m of
                                None \<Rightarrow> False | Some (cap, chk, nd) \<Rightarrow> chk),
       push = tn_push,
       pop = tn_pop,
       fen = (\<lambda>b. tn_fen (fst b)),
       is_checkmate = (\<lambda>b. tn_status (fst b) = Checkmate),
       is_stalemate = (\<lambda>b. tn_status (fst b) = Stalemate),
       is_insufficient_material = (\<lambda>b. tn_status (fst b) = Insufficient),
       is_fivefold_repetition = (\<lambda>b. tn_status (fst b) = Fivefold),
       is_seventyfive_moves = (\<lambda>b. tn_status (fst b) = SeventyFive),
       is_game_over = (\<lambda>b. tn_status (fst b) \<noteq> Playing),
       Board = tn_Board known,
       promotion_name = (\<lambda>pt. Inl (AttributeError ''int'' ''name'')) \<rparr>"

subsection \<open>The positions used below\<close>

text \<open>
  \<open>mate_node\<close>: \<open>7k/6Q1/6K1/8/8/8/8/8 b - - 0 1\<close>. Black (king h8) is
  checkmated by the queen on g7, which the king on g6 protects.
\<close>

definition mate_node :: tnode where
  "mate_node =
     TNode ''7k/6Q1/6K1/8/8/8/8/8 b - - 0 1'' False 1
       [(46, Piece KING True), (54, Piece QUEEN True), (63, Piece KING False)]
       23 0 [((True, 46), [54]), ((True, 54), [46]), ((True, 63), [54]), ((False, 54), [63])]
       True Checkmate []"

text \<open>
  \<open>stalemate_node\<close>: \<open>7k/5K2/6Q1/8/8/8/8/8 b - - 0 1\<close>. Black (king h8) is
  not in check and has no legal move.
\<close>

definition stalemate_node :: tnode where
  "stalemate_node =
     TNode ''7k/5K2/6Q1/8/8/8/8/8 b - - 0 1'' False 1
       [(46, Piece QUEEN True), (53, Piece KING True), (63, Piece KING False)]
       26 0 [((True, 46), [53]), ((True, 53), [46])] False Stalemate []"

text \<open>
  \<open>kp_child\<close>: \<open>8/k1K5/8/8/8/8/7P/8 w - - 1 2\<close>, white king c7 and pawn h2
  against the black king on a7, white to move. White has seven legal moves
  (five of the king, two of the pawn, listed in the order in which the library
  generates them), none of them a capture, a check or a promotion; with the turn set to black there are two (Ka6, Ka8). No occupied
  square is attacked by either side.

  \<open>kp_root\<close>: \<open>k7/2K5/8/8/8/8/7P/8 b - - 0 1\<close>, the same pieces with the black
  king on a8 and black to move. The only legal move is Ka8-a7, which leads to
  \<open>kp_child\<close>.
\<close>

definition quiet :: "nat \<Rightarrow> nat \<Rightarrow> move \<times> bool \<times> bool \<times> tnode" where
  "quiet a b = (\<lparr> from_square = a, to_square = b, promotion = None \<rparr>, False, False, Beyond)"

definition kp_child :: tnode where
  "kp_child =
     TNode ''8/k1K5/8/8/8/8/7P/8 w - - 1 2'' True 2
       [(15, Piece PAWN True), (48, Piece KING False), (50, Piece KING True)]
       7 2 [] False Playing
       [quiet 50 59, quiet 50 58, quiet 50 51, quiet 50 43, quiet 50 42, quiet 15 23,
        quiet 15 31]"

definition ka7 :: move where
  "ka7 = \<lparr> from_square = 56, to_square = 48, promotion = None \<rparr>"

definition kp_root :: tnode where
  "kp_root =
     TNode ''k7/2K5/8/8/8/8/7P/8 b - - 0 1'' False 1
       [(15, Piece PAWN True), (50, Piece KING True), (56, Piece KING False)]
       8 1 [] False Playing
       [(ka7, False, False, kp_child)]"

definition chess_rules :: "tboard rules" where
  "chess_rules =
     fragment_rules
       [(''7k/6Q1/6K1/8/8/8/8/8 b - - 0 1'', mate_node),
        (''7k/5K2/6Q1/8/8/8/8/8 b - - 0 1'', stalemate_node),
        (''8/k1K5/8/8/8/8/7P/8 w - - 1 2'', kp_child),
        (''k7/2K5/8/8/8/8/7P/8 b - - 0 1'', kp_root)]"

section \<open>Predicates used in the statements\<close>

text \<open>The draw test of \<open>minimax\<close> (the \<open>elif\<close> after the checkmate test), and
  the score of its checkmate branch.\<close>

definition is_draw :: "'b rules \<Rightarrow> 'b \<Rightarrow> bool" where
  "is_draw r b = (is_stalemate r b \<or> is_insufficient_material r b
                  \<or> is_fivefold_repetition r b \<or> is_seventyfive_moves r b)"

definition mate_score :: "'b rules \<Rightarrow> 'b \<Rightarrow> bool \<Rightarrow> score" where
  "mate_score r b ai_color_is_white =
     (if turn r b = ai_color_is_white then Fin 1000000 else Fin (- 1000000))"

text \<open>The contract of \<open>push\<close> and \<open>pop\<close>: undoing a legal move that was
  just applied gives the board back.\<close>

definition undo_ok :: "'b rules \<Rightarrow> bool" where
  "undo_ok r = (\<forall>b. \<forall>m \<in> set (legal_moves r b). pop r (push r b m) = b)"








section \<open>One call of \<open>minimax\<close>, branch by branch\<close>

lemma minimax_hit:
  "tt_probe tt (fen r b) depth alpha beta = Some s \<Longrightarrow>
   minimax (Suc n) r b depth ai alpha beta tt = Inr (s, b, tt)"
  by simp

lemma minimax_leaf:
  "tt_probe tt (fen r b) depth alpha beta = None \<Longrightarrow> depth = 0 \<Longrightarrow>
   minimax (Suc n) r b depth ai alpha beta tt =
     (case quiescence_search n r b ai alpha beta of
        Inl e \<Rightarrow> Inl e
      | Inr (score, b') \<Rightarrow> Inr (score, b', tt(fen r b \<mapsto> (0, score, TT_EXACT))))"
  by (simp add: Let_def)

lemma minimax_mate:
  "tt_probe tt (fen r b) depth alpha beta = None \<Longrightarrow> depth \<noteq> 0 \<Longrightarrow> is_checkmate r b \<Longrightarrow>
   minimax (Suc n) r b depth ai alpha beta tt =
     Inr (mate_score r b ai, b, tt(fen r b \<mapsto> (depth, mate_score r b ai, TT_EXACT)))"
  by (simp add: mate_score_def Let_def)

lemma minimax_draw:
  "tt_probe tt (fen r b) depth alpha beta = None \<Longrightarrow> depth \<noteq> 0 \<Longrightarrow> \<not> is_checkmate r b \<Longrightarrow>
   is_draw r b \<Longrightarrow>
   minimax (Suc n) r b depth ai alpha beta tt =
     Inr (Fin 0, b, tt(fen r b \<mapsto> (depth, Fin 0, TT_EXACT)))"
  by (simp add: is_draw_def Let_def)

lemma minimax_inner:
  "tt_probe tt (fen r b) depth alpha beta = None \<Longrightarrow> depth \<noteq> 0 \<Longrightarrow> \<not> is_checkmate r b \<Longrightarrow>
   \<not> is_draw r b \<Longrightarrow>
   minimax (Suc n) r b depth ai alpha beta tt =
     (case minimax_loop n r (sort_reverse (check_key r b) (legal_moves r b)) b depth ai
             alpha beta (if ai then NegInf else PosInf)
             (if ai then TT_LOWERBOUND else TT_UPPERBOUND) tt of
        Inl e \<Rightarrow> Inl e
      | Inr ((best, flag'), b', tt') \<Rightarrow> Inr (best, b', tt'(fen r b \<mapsto> (depth, best, flag'))))"
  by (simp add: is_draw_def Let_def)

lemma minimax_miss:
  assumes miss: "tt_probe tt (fen r b) depth alpha beta = None"
  shows "minimax (Suc n) r b depth ai alpha beta tt =
     (if depth = 0 then
        (case quiescence_search n r b ai alpha beta of
           Inl e \<Rightarrow> Inl e
         | Inr (score, b') \<Rightarrow> Inr (score, b', tt(fen r b \<mapsto> (0, score, TT_EXACT))))
      else if is_checkmate r b then
        Inr (mate_score r b ai, b, tt(fen r b \<mapsto> (depth, mate_score r b ai, TT_EXACT)))
      else if is_draw r b then
        Inr (Fin 0, b, tt(fen r b \<mapsto> (depth, Fin 0, TT_EXACT)))
      else
        (case minimax_loop n r (sort_reverse (check_key r b) (legal_moves r b)) b depth ai
                alpha beta (if ai then NegInf else PosInf)
                (if ai then TT_LOWERBOUND else TT_UPPERBOUND) tt of
           Inl e \<Rightarrow> Inl e
         | Inr ((best, flag'), b', tt') \<Rightarrow>
             Inr (best, b', tt'(fen r b \<mapsto> (depth, best, flag')))))"
proof (cases "depth = 0")
  case True
  from True minimax_leaf [OF miss True, of n ai] show ?thesis
    by (simp only: if_True simp_thms)
next
  case nz: False
  show ?thesis
  proof (cases "is_checkmate r b")
    case True
    then show ?thesis using nz
      by (simp only: minimax_mate [OF miss nz True] if_True if_False simp_thms)
  next
    case nm: False
    show ?thesis
    proof (cases "is_draw r b")
      case True
      then show ?thesis using nz nm
        by (simp only: minimax_draw [OF miss nz nm True] if_True if_False simp_thms)
    next
      case False
      then show ?thesis using nz nm
        by (simp only: minimax_inner [OF miss nz nm False] if_True if_False simp_thms)
    qed
  qed
qed


section \<open>The checkmate branch\<close>

text \<open>
  Claim C1. At a checkmate the search is said to score the node -1,000,000
  when the side to move (the side that is mated) is the perspective colour,
  and +1,000,000 otherwise, and to store the entry as EXACT.

  The source tests \<open>board.turn == (chess.WHITE if ai_color_is_white else chess.BLACK)\<close>
  and assigns \<open>1000000\<close> in that branch: the sign is the other way round. In
  the position \<open>7k/6Q1/6K1/8/8/8/8/8 b - - 0 1\<close> black is to move and mated;
  searched at depth 1 from black's perspective, with the full window and an
  empty table, the call returns +1,000,000, stored as EXACT.
\<close>

theorem checkmate_scored_for_side_to_move:
  "is_checkmate chess_rules (mate_node, [])
   \<and> turn chess_rules (mate_node, []) = False
   \<and> (case minimax 1 chess_rules (mate_node, []) 1 False NegInf PosInf Map.empty of
        Inl e \<Rightarrow> False
      | Inr (s, b, tt) \<Rightarrow>
          s = Fin 1000000 \<and> b = (mate_node, [])
          \<and> tt (tn_fen mate_node) = Some (1, Fin 1000000, TT_EXACT))"
  by code_simp

section \<open>Perspective of the evaluator\<close>

text \<open>
  Claim C2. Swapping the perspective colour is said to negate the result of
  the evaluator: \<open>evaluate(P, A) = - evaluate(P, B)\<close>.

  Two terms of the source keep their sign when the perspective changes: the
  open-file penalty of a king is subtracted for both kings whatever the
  perspective is, and the hanging-piece penalty tests an attack by the
  opponent of the perspective, so it only ever fires for the perspective's own
  pieces. In the position \<open>8/k1K5/8/8/8/8/7P/8 w - - 1 2\<close> both kings stand on
  files without a pawn of their colour: the evaluation is 219 for white and
  -259 for black, which sum to -40.
\<close>

theorem evaluate_board_not_antisymmetric:
  "evaluate_board chess_rules (kp_child, [kp_root]) True = 219
   \<and> evaluate_board chess_rules (kp_child, [kp_root]) False = - 259"
  by code_simp

section \<open>The flag stored at an internal node\<close>

text \<open>
  Claim C3. At an internal node (depth above 0, not terminal) where no cutoff
  occurs and every legal move is explored, the stored entry is said to be
  EXACT.

  The source initialises \<open>flag\<close> with \<open>TT_LOWERBOUND\<close> or \<open>TT_UPPERBOUND\<close>
  and assigns the same value again at a cutoff; \<open>TT_EXACT\<close> is never assigned
  at an internal node. In the position \<open>k7/2K5/8/8/8/8/7P/8 b - - 0 1\<close> black
  has one legal move; at depth 1 with the full window it is explored without
  a cutoff (beta becomes 219, alpha stays at minus infinity), and the entry
  stored for the node is an upper bound.
\<close>

theorem internal_node_stored_as_bound:
  "(case minimax 3 chess_rules (kp_root, []) 1 False NegInf PosInf Map.empty of
      Inl e \<Rightarrow> False
    | Inr (s, b, tt) \<Rightarrow>
        s = Fin 219 \<and> b = (kp_root, [])
        \<and> tt (tn_fen kp_root) = Some (1, Fin 219, TT_UPPERBOUND))"
  by code_simp

section \<open>Early return from the transposition table\<close>

text \<open>
  Claim C4. A stored entry is returned early exactly when its depth is at
  least the requested depth and its flag is EXACT, or LOWER_BOUND with a score
  of at least beta, or UPPER_BOUND with a score of at most alpha; then the
  call returns the stored score and leaves board and table as they are. In
  every other case the entry is ignored and the search proceeds: the call is
  the rest of the function body (quiescence at depth 0, the checkmate score,
  the draw score, or the loop over the ordered legal moves), which stores its
  own entry for the position.
\<close>

theorem tt_entry_returned_early:
  "(tt_probe tt (fen r b) depth alpha beta = Some s \<longleftrightarrow>
      (\<exists>d fl. tt (fen r b) = Some (d, s, fl) \<and> depth \<le> d
         \<and> (fl = TT_EXACT \<or> fl = TT_LOWERBOUND \<and> beta \<le> s \<or> fl = TT_UPPERBOUND \<and> s \<le> alpha)))
   \<and> (tt_probe tt (fen r b) depth alpha beta = Some s \<longrightarrow>
        minimax (Suc n) r b depth ai alpha beta tt = Inr (s, b, tt))
   \<and> (tt_probe tt (fen r b) depth alpha beta = None \<longrightarrow>
        minimax (Suc n) r b depth ai alpha beta tt =
          (if depth = 0 then
             (case quiescence_search n r b ai alpha beta of
                Inl e \<Rightarrow> Inl e
              | Inr (score, b') \<Rightarrow> Inr (score, b', tt(fen r b \<mapsto> (0, score, TT_EXACT))))
           else if is_checkmate r b then
             Inr (mate_score r b ai, b, tt(fen r b \<mapsto> (depth, mate_score r b ai, TT_EXACT)))
           else if is_draw r b then
             Inr (Fin 0, b, tt(fen r b \<mapsto> (depth, Fin 0, TT_EXACT)))
           else
             (case minimax_loop n r (sort_reverse (check_key r b) (legal_moves r b)) b depth ai
                     alpha beta (if ai then NegInf else PosInf)
                     (if ai then TT_LOWERBOUND else TT_UPPERBOUND) tt of
                Inl e \<Rightarrow> Inl e
              | Inr ((best, flag'), b', tt') \<Rightarrow>
                  Inr (best, b', tt'(fen r b \<mapsto> (depth, best, flag'))))))"
proof (intro conjI impI)
  show "tt_probe tt (fen r b) depth alpha beta = Some s \<longleftrightarrow>
      (\<exists>d fl. tt (fen r b) = Some (d, s, fl) \<and> depth \<le> d
         \<and> (fl = TT_EXACT \<or> fl = TT_LOWERBOUND \<and> beta \<le> s \<or> fl = TT_UPPERBOUND \<and> s \<le> alpha))"
    by (cases "tt (fen r b)") (auto simp: tt_probe_def split: if_splits)
next
  assume "tt_probe tt (fen r b) depth alpha beta = Some s"
  then show "minimax (Suc n) r b depth ai alpha beta tt = Inr (s, b, tt)"
    by (rule minimax_hit)
next
  assume "tt_probe tt (fen r b) depth alpha beta = None"
  then show "minimax (Suc n) r b depth ai alpha beta tt =
          (if depth = 0 then
             (case quiescence_search n r b ai alpha beta of
                Inl e \<Rightarrow> Inl e
              | Inr (score, b') \<Rightarrow> Inr (score, b', tt(fen r b \<mapsto> (0, score, TT_EXACT))))
           else if is_checkmate r b then
             Inr (mate_score r b ai, b, tt(fen r b \<mapsto> (depth, mate_score r b ai, TT_EXACT)))
           else if is_draw r b then
             Inr (Fin 0, b, tt(fen r b \<mapsto> (depth, Fin 0, TT_EXACT)))
           else
             (case minimax_loop n r (sort_reverse (check_key r b) (legal_moves r b)) b depth ai
                     alpha beta (if ai then NegInf else PosInf)
                     (if ai then TT_LOWERBOUND else TT_UPPERBOUND) tt of
                Inl e \<Rightarrow> Inl e
              | Inr ((best, flag'), b', tt') \<Rightarrow>
                  Inr (best, b', tt'(fen r b \<mapsto> (depth, best, flag')))))"
    by (rule minimax_miss)
qed

text \<open>The witness runs both paths on \<open>kp_root\<close>: a lower bound of depth 2
  with score 7 is returned at once for beta 3; an EXACT entry of depth 0 with
  score 7 is not used at depth 1, and the search returns 219.\<close>

lemma kp_root_loop_value:
  "(case minimax_loop 2 chess_rules
           (sort_reverse (check_key chess_rules (kp_root, []))
              (legal_moves chess_rules (kp_root, [])))
           (kp_root, []) 1 False NegInf PosInf PosInf TT_UPPERBOUND
           [tn_fen kp_root \<mapsto> (0, Fin 7, TT_EXACT)] of
      Inl e \<Rightarrow> False
    | Inr ((best, fl), b, tt) \<Rightarrow> best = Fin 219 \<and> fl = TT_UPPERBOUND \<and> b = (kp_root, []))"
  by code_simp

theorem tt_entry_returned_early_witness:
  "tt_probe [tn_fen kp_root \<mapsto> (2, Fin 7, TT_LOWERBOUND)] (tn_fen kp_root) 1 NegInf (Fin 3)
     = Some (Fin 7)
   \<and> minimax 1 chess_rules (kp_root, []) 1 False NegInf (Fin 3)
        [tn_fen kp_root \<mapsto> (2, Fin 7, TT_LOWERBOUND)]
     = Inr (Fin 7, (kp_root, []), [tn_fen kp_root \<mapsto> (2, Fin 7, TT_LOWERBOUND)])
   \<and> tt_probe [tn_fen kp_root \<mapsto> (0, Fin 7, TT_EXACT)] (tn_fen kp_root) 1 NegInf PosInf = None
   \<and> (\<exists>tt1. minimax 3 chess_rules (kp_root, []) 1 False NegInf PosInf
               [tn_fen kp_root \<mapsto> (0, Fin 7, TT_EXACT)]
         = Inr (Fin 219, (kp_root, []), tt1(tn_fen kp_root \<mapsto> (1, Fin 219, TT_UPPERBOUND))))"
proof -
  let ?tt = "[tn_fen kp_root \<mapsto> (2, Fin 7, TT_LOWERBOUND)] :: ttable"
  let ?st = "[tn_fen kp_root \<mapsto> (0, Fin 7, TT_EXACT)] :: ttable"
  let ?b = "(kp_root, []) :: tboard"
  have key: "fen chess_rules ?b = tn_fen kp_root"
    by (simp add: chess_rules_def fragment_rules_def)
  have nm: "\<not> is_checkmate chess_rules ?b"
    by (simp add: chess_rules_def fragment_rules_def kp_root_def)
  have nd: "\<not> is_draw chess_rules ?b"
    by (simp add: is_draw_def chess_rules_def fragment_rules_def kp_root_def)
  have stored: "\<exists>d fl. ?tt (fen chess_rules ?b) = Some (d, Fin 7, fl) \<and> 1 \<le> d
         \<and> (fl = TT_EXACT \<or> fl = TT_LOWERBOUND \<and> Fin 3 \<le> Fin 7
             \<or> fl = TT_UPPERBOUND \<and> Fin 7 \<le> NegInf)"
    by (simp add: key)
  note th = tt_entry_returned_early [of ?tt chess_rules ?b 1 NegInf "Fin 3" "Fin 7" 0 False]
  from th stored
  have hit: "tt_probe ?tt (fen chess_rules ?b) 1 NegInf (Fin 3) = Some (Fin 7)"
    by blast
  with th have early: "minimax (Suc 0) chess_rules ?b 1 False NegInf (Fin 3) ?tt
      = Inr (Fin 7, ?b, ?tt)"
    by blast
  have miss: "tt_probe ?st (fen chess_rules ?b) 1 NegInf PosInf = None"
    by (simp add: key tt_probe_def)
  note th2 = tt_entry_returned_early [of ?st chess_rules ?b 1 NegInf PosInf "Fin 7" 2 False]
  from th2 miss nm nd
  have searched: "minimax (Suc 2) chess_rules ?b 1 False NegInf PosInf ?st =
      (case minimax_loop 2 chess_rules
              (sort_reverse (check_key chess_rules ?b) (legal_moves chess_rules ?b))
              ?b 1 False NegInf PosInf PosInf TT_UPPERBOUND ?st of
         Inl e \<Rightarrow> Inl e
       | Inr ((best, flag'), b', tt') \<Rightarrow>
           Inr (best, b', tt'(fen chess_rules ?b \<mapsto> (1, best, flag'))))"
    by simp
  from kp_root_loop_value obtain tt1 where
    "minimax_loop 2 chess_rules
       (sort_reverse (check_key chess_rules ?b) (legal_moves chess_rules ?b))
       ?b 1 False NegInf PosInf PosInf TT_UPPERBOUND ?st
     = Inr ((Fin 219, TT_UPPERBOUND), ?b, tt1)"
    by (auto split: sum.splits)
  with searched have res: "minimax (Suc 2) chess_rules ?b 1 False NegInf PosInf ?st
      = Inr (Fin 219, ?b, tt1(tn_fen kp_root \<mapsto> (1, Fin 219, TT_UPPERBOUND)))"
    by (simp only: key sum.case prod.case)
  have three: "(3::nat) = Suc 2" by simp
  have "\<exists>tt1. minimax 3 chess_rules ?b 1 False NegInf PosInf ?st
      = Inr (Fin 219, ?b, tt1(tn_fen kp_root \<mapsto> (1, Fin 219, TT_UPPERBOUND)))"
    unfolding three using res by blast
  with hit early miss show ?thesis by (simp only: key One_nat_def simp_thms)
qed

section \<open>Alpha-beta against full-width negamax\<close>

text \<open>
  Claim C5. The search with the full window is said to return the score (and
  the move) of an unpruned full-width negamax of the same depth with the same
  quiescence search.

  \<open>minimax\<close> passes the window on as \<open>(-beta, -alpha)\<close> and flips the
  perspective, but uses the score of the recursive call without negating it.
  In the position \<open>k7/2K5/8/8/8/8/7P/8 b - - 0 1\<close>, at depth 1 from black's
  perspective, the only move leads to a quiet position that the quiescence
  search values at 219 for white, the side to move there: \<open>minimax\<close> returns
  219, the negamax of the specification returns -219.
\<close>

theorem minimax_differs_from_negamax:
  "(case minimax 3 chess_rules (kp_root, []) 1 False NegInf PosInf Map.empty of
      Inl e \<Rightarrow> False
    | Inr (s, b, tt) \<Rightarrow> s = Fin 219)
   \<and> spec_negamax 3 chess_rules (kp_root, []) 1 False = Inr (Fin (- 219))"
  by code_simp

section \<open>Drawn positions\<close>











section \<open>The development term\<close>

text \<open>
  Claim C7. While the full-move number is below 6 the development term is
  said to add 10 for each own knight or bishop that has left its starting
  square, net of the opponent's count; from move 6 on it adds nothing.

  In the source the counter is incremented only in the \<open>else\<close> branch of a
  test whose first branch has the same condition, so it stays 0: the term is
  0 for every position, perspective and move number.
\<close>

lemma developed_pieces_zero: "developed_pieces r b c sqs = 0"
  by (auto simp: developed_pieces_def filter_empty_conv split: option.splits)

theorem development_term_is_zero: "development_score r b ai_color_is_white = 0"
  by (simp add: development_score_def developed_pieces_zero)

section \<open>The board after a search\<close>

lemma set_sort_reverse: "set (sort_reverse key ms) = set ms"
  by (simp add: sort_reverse_def)

lemma undo_okD: "undo_ok r \<Longrightarrow> m \<in> set (legal_moves r b) \<Longrightarrow> pop r (push r b m) = b"
  by (simp add: undo_ok_def)

lemma quiescence_loop_board:
  assumes IH: "\<forall>b ai alpha beta s b'.
      quiescence_search n r b ai alpha beta = Inr (s, b') \<longrightarrow> b' = b"
    and un: "undo_ok r"
  shows "set ms \<subseteq> set (legal_moves r b) \<Longrightarrow>
         quiescence_loop n r ms b ai alpha beta = Inr (s, b') \<Longrightarrow> b' = b"
proof (induction ms arbitrary: alpha)
  case Nil
  then show ?case by simp
next
  case (Cons m ms)
  from Cons.prems(1) have m: "m \<in> set (legal_moves r b)" and ms: "set ms \<subseteq> set (legal_moves r b)"
    by auto
  show ?case
  proof (cases "quiescence_search n r (push r b m) (\<not> ai) (- beta) (- alpha)")
    case (Inl e)
    with Cons.prems(2) show ?thesis by simp
  next
    case (Inr p)
    obtain s0 b0 where p: "p = (s0, b0)" by (cases p)
    from Inr p IH have "b0 = push r b m" by blast
    with un m have restored: "pop r b0 = b" by (simp add: undo_okD)
    show ?thesis
    proof (cases "- s0 \<ge> beta")
      case True
      with Cons.prems(2) Inr p restored show ?thesis by (simp add: Let_def)
    next
      case False
      with Cons.prems(2) Inr p restored
      have "quiescence_loop n r ms b ai (if - s0 > alpha then - s0 else alpha) beta = Inr (s, b')"
        by (simp add: Let_def)
      with Cons.IH ms show ?thesis by blast
    qed
  qed
qed

lemma quiescence_search_board:
  assumes un: "undo_ok r"
  shows "quiescence_search n r b ai alpha beta = Inr (s, b') \<Longrightarrow> b' = b"
proof (induction n arbitrary: b ai alpha beta s b')
  case 0
  then show ?case by simp
next
  case (Suc n)
  let ?sp = "Fin (evaluate_board r b ai)"
  show ?case
  proof (cases "?sp \<ge> beta")
    case True
    with Suc.prems show ?thesis by (simp add: Let_def)
  next
    case False
    let ?ms = "sort_reverse (calculate_mvl_lva r b)
        (filter (\<lambda>m. is_capture r b m \<or> gives_check r b m \<or> promotion m \<noteq> None) (legal_moves r b))"
    from False Suc.prems
    have "quiescence_loop n r ?ms b ai (if ?sp > alpha then ?sp else alpha) beta = Inr (s, b')"
      by (simp add: Let_def)
    moreover have "set ?ms \<subseteq> set (legal_moves r b)"
      by (auto simp: set_sort_reverse)
    moreover have IH': "\<forall>b ai alpha beta s b'.
        quiescence_search n r b ai alpha beta = Inr (s, b') \<longrightarrow> b' = b"
      using Suc.IH by blast
    ultimately show ?thesis
      using quiescence_loop_board [OF IH' un] by blast
  qed
qed

lemma minimax_loop_board:
  assumes IH: "\<forall>b depth ai alpha beta tt s b' tt'.
      minimax n r b depth ai alpha beta tt = Inr (s, b', tt') \<longrightarrow> b' = b"
    and un: "undo_ok r"
  shows "set ms \<subseteq> set (legal_moves r b) \<Longrightarrow>
         minimax_loop n r ms b depth ai alpha beta best flag tt = Inr (res, b', tt') \<Longrightarrow> b' = b"
proof (induction ms arbitrary: alpha beta best tt)
  case Nil
  then show ?case by simp
next
  case (Cons m ms)
  from Cons.prems(1) have m: "m \<in> set (legal_moves r b)" and ms: "set ms \<subseteq> set (legal_moves r b)"
    by auto
  show ?case
  proof (cases "minimax n r (push r b m) (depth - 1) (\<not> ai) (- beta) (- alpha) tt")
    case (Inl e)
    with Cons.prems(2) show ?thesis by simp
  next
    case (Inr p)
    obtain s0 b0 tt0 where p: "p = (s0, b0, tt0)" by (cases p)
    from Inr p IH have "b0 = push r b m" by blast
    with un m have restored: "pop r b0 = b" by (simp add: undo_okD)
    let ?best = "if ai then (if s0 > best then s0 else best) else (if s0 < best then s0 else best)"
    let ?alpha = "if ai then py_max alpha s0 else alpha"
    let ?beta = "if ai then beta else py_min beta s0"
    show ?thesis
    proof (cases "?beta \<le> ?alpha")
      case True
      with Cons.prems(2) Inr p restored show ?thesis by (simp add: Let_def)
    next
      case False
      with Cons.prems(2) Inr p restored
      have "minimax_loop n r ms b depth ai ?alpha ?beta ?best flag tt0 = Inr (res, b', tt')"
        by (simp add: Let_def)
      with Cons.IH ms show ?thesis by blast
    qed
  qed
qed

lemma minimax_board:
  assumes un: "undo_ok r"
  shows "minimax n r b depth ai alpha beta tt = Inr (s, b', tt') \<Longrightarrow> b' = b"
proof (induction n arbitrary: b depth ai alpha beta tt s b' tt')
  case 0
  then show ?case by simp
next
  case (Suc n)
  note ret = Suc.prems
  have IH': "\<forall>b depth ai alpha beta tt s b' tt'.
      minimax n r b depth ai alpha beta tt = Inr (s, b', tt') \<longrightarrow> b' = b"
    using Suc.IH by blast
  show ?case
  proof (cases "tt_probe tt (fen r b) depth alpha beta")
    case (Some st)
    from ret show ?thesis unfolding minimax_hit [OF Some] by simp
  next
    case miss: None
    show ?thesis
    proof (cases "depth = 0")
      case True
      from ret show ?thesis unfolding minimax_leaf [OF miss True]
        by (auto split: sum.splits prod.splits dest: quiescence_search_board [OF un])
    next
      case nz: False
      show ?thesis
      proof (cases "is_checkmate r b")
        case True
        from ret show ?thesis unfolding minimax_mate [OF miss nz True] by simp
      next
        case nm: False
        show ?thesis
        proof (cases "is_draw r b")
          case True
          from ret show ?thesis unfolding minimax_draw [OF miss nz nm True] by simp
        next
          case False
          have sub: "set (sort_reverse (check_key r b) (legal_moves r b)) \<subseteq> set (legal_moves r b)"
            by (simp add: set_sort_reverse)
          from ret show ?thesis unfolding minimax_inner [OF miss nz nm False]
            by (auto split: sum.splits prod.splits
                dest: minimax_loop_board [OF IH' un sub])
        qed
      qed
    qed
  qed
qed

lemma root_loop_board:
  assumes un: "undo_ok r"
  shows "set ms \<subseteq> set (legal_moves r b) \<Longrightarrow>
         root_loop n r ms b depth ai best_score best_move tt = Inr (res, b', tt') \<Longrightarrow> b' = b"
proof (induction ms arbitrary: best_score best_move tt)
  case Nil
  then show ?case by simp
next
  case (Cons m ms)
  from Cons.prems(1) have m: "m \<in> set (legal_moves r b)" and ms: "set ms \<subseteq> set (legal_moves r b)"
    by auto
  show ?case
  proof (cases "minimax n r (push r b m) (depth - 1) (\<not> ai) NegInf PosInf tt")
    case (Inl e)
    with Cons.prems(2) show ?thesis by simp
  next
    case (Inr p)
    obtain s0 b0 tt0 where p: "p = (s0, b0, tt0)" by (cases p)
    from Inr p minimax_board [OF un] have "b0 = push r b m" by blast
    with un m have restored: "pop r b0 = b" by (simp add: undo_okD)
    show ?thesis
    proof (cases "if ai then s0 > best_score else s0 < best_score")
      case True
      with Cons.prems(2) Inr p restored
      have "root_loop n r ms b depth ai s0 (Some m) tt0 = Inr (res, b', tt')"
        by (auto simp: Let_def split: if_splits)
      with Cons.IH ms show ?thesis by blast
    next
      case False
      with Cons.prems(2) Inr p restored
      have "root_loop n r ms b depth ai best_score best_move tt0 = Inr (res, b', tt')"
        by (auto simp: Let_def split: if_splits)
      with Cons.IH ms show ?thesis by blast
    qed
  qed
qed

text \<open>
  Claim C9. Every call of the quiescence search, of \<open>minimax\<close> and of the
  root search that returns leaves the board as it was: each move that is
  applied is undone before the next one is tried, also on the paths that
  leave a loop early. This needs of the library only that \<open>pop\<close> undoes the
  \<open>push\<close> of a legal move. A call that ends in an exception has no board to
  return.
\<close>

theorem search_leaves_board_unchanged:
  assumes "undo_ok r"
  shows "(quiescence_search n r b ai alpha beta = Inr (s, b1) \<longrightarrow> b1 = b)
       \<and> (minimax n r b depth ai alpha beta tt = Inr (s2, b2, tt2) \<longrightarrow> b2 = b)
       \<and> (root_search n r tt b depth ai = Inr (res, b3, tt3) \<longrightarrow> b3 = b)"
proof (intro conjI impI)
  assume "quiescence_search n r b ai alpha beta = Inr (s, b1)"
  then show "b1 = b" by (rule quiescence_search_board [OF assms])
next
  assume "minimax n r b depth ai alpha beta tt = Inr (s2, b2, tt2)"
  then show "b2 = b" by (rule minimax_board [OF assms])
next
  assume "root_search n r tt b depth ai = Inr (res, b3, tt3)"
  then show "b3 = b"
    unfolding root_search_def Let_def
    by (rule root_loop_board [OF assms, rotated]) (simp add: set_sort_reverse)
qed

lemma undo_ok_chess_rules: "undo_ok chess_rules"
  by (simp add: undo_ok_def chess_rules_def fragment_rules_def tn_push_def tn_pop_def
      split: option.split)

lemma kp_root_search_returns:
  "\<exists>s b tt. minimax 3 chess_rules (kp_root, []) 1 False NegInf PosInf Map.empty = Inr (s, b, tt)"
proof -
  have "(case minimax 3 chess_rules (kp_root, []) 1 False NegInf PosInf Map.empty of
          Inl e \<Rightarrow> False | Inr x \<Rightarrow> True)"
    by code_simp
  then show ?thesis by (auto split: sum.splits)
qed

theorem search_leaves_board_unchanged_witness:
  "undo_ok chess_rules
   \<and> (\<exists>s tt. minimax 3 chess_rules (kp_root, []) 1 False NegInf PosInf Map.empty
         = Inr (s, (kp_root, []), tt))"
proof -
  from kp_root_search_returns obtain s b tt
    where ret: "minimax 3 chess_rules (kp_root, []) 1 False NegInf PosInf Map.empty = Inr (s, b, tt)"
    by blast
  from search_leaves_board_unchanged [OF undo_ok_chess_rules,
      of 3 "(kp_root, [])" False NegInf PosInf _ _ 1 Map.empty s b tt] ret
  have "b = (kp_root, [])" by blast
  with ret undo_ok_chess_rules show ?thesis by blast
qed

section \<open>Determinism of a request\<close>

lemma sort_reverse_stable:
  "filter (\<lambda>m. key m = k) (sort_reverse key ms) = filter (\<lambda>m. key m = k) ms"
  using sort_key_stable [of "\<lambda>m. - key m" "- k" ms] by (simp add: sort_reverse_def)

lemma sorted_rev_of_negated:
  "sorted (map (\<lambda>x. - f x) xs) \<Longrightarrow> sorted (rev (map f xs))"
  for f :: "'a \<Rightarrow> int"
  by (induction xs) (auto simp: sorted_append)

lemma sort_reverse_sorted: "sorted (rev (map key (sort_reverse key ms)))"
  by (rule sorted_rev_of_negated) (simp add: sort_reverse_def)

lemma root_search_clears:
  "root_search n r tt1 board depth ai_is_white = root_search n r tt2 board depth ai_is_white"
  by (simp add: root_search_def clear_def)

lemma try_body_clears:
  "try_body n r tt1 f c d = try_body n r tt2 f c d"
  unfolding try_body_def root_search_clears [of n r tt1 _ _ _ tt2] ..

text \<open>
  Claim C10. Move selection is deterministic. The model is a function, so
  equal inputs give equal results; what a request could still depend on is
  the content of the global table left by earlier requests. It does not: the
  response of the endpoint, and the score and move of the root search, are the
  same for any two tables the request may find, because the table is cleared
  before the search. The move ordering is descending by key and keeps moves
  of equal key in the order of generation.
\<close>

theorem request_is_deterministic:
  "get_ai_move n r tt1 data = get_ai_move n r tt2 data
   \<and> root_search n r tt1 board depth ai_is_white = root_search n r tt2 board depth ai_is_white
   \<and> filter (\<lambda>m. key m = k) (sort_reverse key ms) = filter (\<lambda>m. key m = k) ms
   \<and> sorted (rev (map key (sort_reverse key ms)))"
proof (intro conjI)
  show "get_ai_move n r tt1 data = get_ai_move n r tt2 data"
    unfolding get_ai_move_def try_body_clears [of n r tt1 _ _ _ tt2] ..
  show "root_search n r tt1 board depth ai_is_white = root_search n r tt2 board depth ai_is_white"
    by (rule root_search_clears)
  show "filter (\<lambda>m. key m = k) (sort_reverse key ms) = filter (\<lambda>m. key m = k) ms"
    by (rule sort_reverse_stable)
  show "sorted (rev (map key (sort_reverse key ms)))"
    by (rule sort_reverse_sorted)
qed

section \<open>Failures of the endpoint\<close>








end
